theory Spec2Isabelle
  imports Complex_Main
begin

section \<open>The meshing engine as recorded state\<close>

text \<open>
  The three builders of \<^verbatim>\<open>meshing.py\<close> drive the external engine \<^verbatim>\<open>gmsh\<close> through
  its OpenCASCADE interface. The engine is not part of the repository: it is modelled as
  a record of what the builders ask it to create. Every entity kind has its own list,
  and the tag the engine hands back for a new entity is its position in that list,
  counted from 1, as the engine numbers the entities of a fresh model.

  Python's floats are modelled as exact reals: \<^verbatim>\<open>z + height/2\<close> is the real sum, and
  \<^verbatim>\<open>math.tan\<close>, \<^verbatim>\<open>math.radians\<close> are the real functions.
\<close>

type_synonym tag = int

record point =
  px :: real
  py :: real
  pz :: real
  lc :: real

record physical_group =
  pg_dim :: nat
  pg_tag :: tag
  pg_entities :: "tag list"
  pg_name :: string

record model =
  model_name :: string
  points :: "point list"
  curves :: "(tag \<times> tag) list"
  curve_loops :: "tag list list"
  surfaces :: "tag list list"
  surface_loops :: "tag list list"
  volumes :: "tag list list"
  physical :: "physical_group list"
  meshed :: "nat option"

text \<open>
  The process-wide state: whether an engine session is open, the options set in it, the
  current model, and the mesh files written so far (path and the model that was meshed).
\<close>

record world =
  initialized :: bool
  options :: "string \<rightharpoonup> real"
  current :: model
  files :: "(string \<times> model) list"



text \<open>A \<^verbatim>\<open>pathlib.Path\<close>, already split into directory prefix, stem and suffix.\<close>

record path =
  parent :: string
  stem :: string
  suffix :: string



definition empty_model :: "string \<Rightarrow> model" where
  "empty_model n = \<lparr>model_name = n, points = [], curves = [], curve_loops = [],
     surfaces = [], surface_loops = [], volumes = [], physical = [], meshed = None\<rparr>"

definition next_tag :: "'a list \<Rightarrow> tag" where
  "next_tag xs = int (length xs) + 1"

text \<open>The entity a tag stands for; an unknown tag has none.\<close>

definition entity :: "'a list \<Rightarrow> tag \<Rightarrow> 'a option" where
  "entity xs t = (if 1 \<le> t \<and> t \<le> int (length xs) then Some (xs ! nat (t - 1)) else None)"

definition gmsh_initialize :: "world \<Rightarrow> world" where
  "gmsh_initialize g = g\<lparr>initialized := True\<rparr>"


definition option_setNumber :: "string \<Rightarrow> real \<Rightarrow> world \<Rightarrow> world" where
  "option_setNumber n v g = g\<lparr>options := (options g)(n \<mapsto> v)\<rparr>"

definition model_add :: "string \<Rightarrow> world \<Rightarrow> world" where
  "model_add n g = g\<lparr>current := empty_model n\<rparr>"

definition occ_addPoint :: "real \<Rightarrow> real \<Rightarrow> real \<Rightarrow> real \<Rightarrow> world \<Rightarrow> tag \<times> world" where
  "occ_addPoint x y z meshSize g =
     (let m = current g
      in (next_tag (points m),
          g\<lparr>current := m\<lparr>points := points m @ [\<lparr>px = x, py = y, pz = z, lc = meshSize\<rparr>]\<rparr>\<rparr>))"

definition occ_addLine :: "tag \<Rightarrow> tag \<Rightarrow> world \<Rightarrow> tag \<times> world" where
  "occ_addLine startTag endTag g =
     (let m = current g
      in (next_tag (curves m), g\<lparr>current := m\<lparr>curves := curves m @ [(startTag, endTag)]\<rparr>\<rparr>))"

definition occ_addCurveLoop :: "tag list \<Rightarrow> world \<Rightarrow> tag \<times> world" where
  "occ_addCurveLoop curveTags g =
     (let m = current g
      in (next_tag (curve_loops m), g\<lparr>current := m\<lparr>curve_loops := curve_loops m @ [curveTags]\<rparr>\<rparr>))"

definition occ_addPlaneSurface :: "tag list \<Rightarrow> world \<Rightarrow> tag \<times> world" where
  "occ_addPlaneSurface wireTags g =
     (let m = current g
      in (next_tag (surfaces m), g\<lparr>current := m\<lparr>surfaces := surfaces m @ [wireTags]\<rparr>\<rparr>))"

definition occ_addSurfaceLoop :: "tag list \<Rightarrow> world \<Rightarrow> tag \<times> world" where
  "occ_addSurfaceLoop surfaceTags g =
     (let m = current g
      in (next_tag (surface_loops m),
          g\<lparr>current := m\<lparr>surface_loops := surface_loops m @ [surfaceTags]\<rparr>\<rparr>))"

definition occ_addVolume :: "tag list \<Rightarrow> world \<Rightarrow> tag \<times> world" where
  "occ_addVolume shellTags g =
     (let m = current g
      in (next_tag (volumes m), g\<lparr>current := m\<lparr>volumes := volumes m @ [shellTags]\<rparr>\<rparr>))"

text \<open>Synchronising the CAD kernel with the model creates nothing and removes nothing.\<close>

definition occ_synchronize :: "world \<Rightarrow> world" where
  "occ_synchronize g = g"

definition model_addPhysicalGroup :: "nat \<Rightarrow> tag list \<Rightarrow> string \<Rightarrow> world \<Rightarrow> tag \<times> world" where
  "model_addPhysicalGroup d tags name g =
     (let m = current g; t = next_tag (physical m)
      in (t, g\<lparr>current := m\<lparr>physical := physical m @
            [\<lparr>pg_dim = d, pg_tag = t, pg_entities = tags, pg_name = name\<rparr>]\<rparr>\<rparr>))"

definition model_setPhysicalName :: "nat \<Rightarrow> tag \<Rightarrow> string \<Rightarrow> world \<Rightarrow> world" where
  "model_setPhysicalName d t name g =
     (let m = current g
      in g\<lparr>current := m\<lparr>physical :=
            map (\<lambda>pg. if pg_dim pg = d \<and> pg_tag pg = t then pg\<lparr>pg_name := name\<rparr> else pg)
              (physical m)\<rparr>\<rparr>)"



section \<open>The rectangle builder\<close>

text \<open>The loop \<^verbatim>\<open>for name, line in bcs\<close>: one named group of dimension 1 per pair.\<close>

fun tag_lines :: "(string \<times> tag) list \<Rightarrow> world \<Rightarrow> world" where
  "tag_lines [] g = g"
| "tag_lines ((name, line) # bcs) g =
     (let (pg, g) = model_addPhysicalGroup 1 [line] [] g;
          g = model_setPhysicalName 1 pg name g
      in tag_lines bcs g)"

text \<open>Lines 13 to 42 of \<^verbatim>\<open>create_rectangle_mesh\<close>: everything before the mesh is generated.\<close>

definition rectangle_shape :: "path \<Rightarrow> real \<Rightarrow> real \<Rightarrow> real \<Rightarrow> real \<Rightarrow> world \<Rightarrow> world" where
  "rectangle_shape filepath width height mesh_size center_z g =
     (let g = gmsh_initialize g;
          g = option_setNumber ''General.Verbosity'' 0 g;
          g = option_setNumber ''Mesh.CharacteristicLengthMin'' mesh_size g;
          g = option_setNumber ''Mesh.CharacteristicLengthMax'' mesh_size g;
          g = model_add (stem filepath) g;
          z = center_z;
          (p1, g) = occ_addPoint 0 (z + height / 2) 0 mesh_size g;
          (p2, g) = occ_addPoint width (z + height / 2) 0 mesh_size g;
          (p3, g) = occ_addPoint width (z - height / 2) 0 mesh_size g;
          (p4, g) = occ_addPoint 0 (z - height / 2) 0 mesh_size g;
          g = occ_synchronize g;
          (l1, g) = occ_addLine p1 p2 g;
          (l2, g) = occ_addLine p2 p3 g;
          (l3, g) = occ_addLine p3 p4 g;
          (l4, g) = occ_addLine p4 p1 g;
          g = occ_synchronize g;
          (cl, g) = occ_addCurveLoop [l1, l2, l3, l4] g;
          (surf, g) = occ_addPlaneSurface [cl] g;
          g = occ_synchronize g;
          (pg_domain, g) = model_addPhysicalGroup 2 [surf] [] g;
          g = model_setPhysicalName 2 pg_domain ''domain'' g;
          bcs = [(''top'', l1), (''right'', l2), (''bottom'', l3), (''left'', l4)]
      in tag_lines bcs g)"


section \<open>The fractured-rectangle builder\<close>

definition radians :: "real \<Rightarrow> real" where
  "radians x = x * pi / 180"

text \<open>
  Lines 57 to 112 of \<^verbatim>\<open>create_rectangle_frac_mesh\<close>. The mode is compared with the two
  strings the code knows; any other string takes neither branch.
\<close>

definition rectangle_frac_shape ::
  "path \<Rightarrow> real \<Rightarrow> real \<Rightarrow> real \<Rightarrow> real \<Rightarrow> string \<Rightarrow> world \<Rightarrow> world" where
  "rectangle_frac_shape filepath width height mesh_size center_z mode g =
     (let g = gmsh_initialize g;
          g = option_setNumber ''General.Verbosity'' 0 g;
          g = option_setNumber ''Mesh.CharacteristicLengthMin'' mesh_size g;
          g = option_setNumber ''Mesh.CharacteristicLengthMax'' mesh_size g;
          g = model_add (stem filepath) g;
          z = center_z;
          (p1, g) = occ_addPoint 0 (z + height / 2) 0 mesh_size g;
          (p2, g) = occ_addPoint width (z + height / 2) 0 mesh_size g;
          (p3, g) = occ_addPoint width (z - height / 2) 0 mesh_size g;
          (p4, g) = occ_addPoint 0 (z - height / 2) 0 mesh_size g;
          angle_rad = radians 30;
          p5_x = 0;
          p6_x = width;
          p5_y = z - width * tan angle_rad / 2;
          p6_y = z + width * tan angle_rad / 2;
          (p5, g) = occ_addPoint p5_x p5_y 0 mesh_size g;
          (p6, g) = occ_addPoint p6_x p6_y 0 mesh_size g;
          g = occ_synchronize g;
          (l1, g) = occ_addLine p2 p1 g;
          (l2, g) = occ_addLine p1 p5 g;
          (l3, g) = occ_addLine p5 p4 g;
          (l4, g) = occ_addLine p4 p3 g;
          (l5, g) = occ_addLine p3 p6 g;
          (l6, g) = occ_addLine p6 p2 g;
          (l7, g) = occ_addLine p6 p5 g;
          g = occ_synchronize g;
          (cl1, g) = occ_addCurveLoop [l1, l2, - l7, l6] g;
          (surf1, g) = occ_addPlaneSurface [cl1] g;
          (cl2, g) = occ_addCurveLoop [l4, l5, l7, l3] g;
          (surf2, g) = occ_addPlaneSurface [cl2] g;
          g = occ_synchronize g
      in if mode = ''BC'' then
           (let bcs = [(''top'', l1), (''bottom'', l4)];
                g = tag_lines bcs g;
                g = snd (model_addPhysicalGroup 1 [l5, l6] ''right'' g);
                g = snd (model_addPhysicalGroup 1 [l2, l3] ''left'' g);
                g = snd (model_addPhysicalGroup 0 [p4] ''p4'' g)
            in g)
         else if mode = ''domain'' then
           (let g = snd (model_addPhysicalGroup 2 [surf1] ''top_surf'' g);
                g = snd (model_addPhysicalGroup 2 [surf2] ''bot_surf'' g);
                g = snd (model_addPhysicalGroup 1 [l7] ''fracture'' g)
            in g)
         else g)"


section \<open>The prism builder\<close>

text \<open>The comprehension \<^verbatim>\<open>[addPoint(x, y, z, mesh_size) for x, y, z in coords]\<close>.\<close>

fun add_points :: "(real \<times> real \<times> real) list \<Rightarrow> real \<Rightarrow> world \<Rightarrow> tag list \<times> world" where
  "add_points [] mesh_size g = ([], g)"
| "add_points ((x, y, z) # coords) mesh_size g =
     (let (p, g) = occ_addPoint x y z mesh_size g;
          (ps, g) = add_points coords mesh_size g
      in (p # ps, g))"

text \<open>
  The loop over \<^verbatim>\<open>face_map.items()\<close>; a Python dict keeps the order in which its keys
  were written, so the map is the list of its pairs.
\<close>

fun tag_faces :: "(string \<times> tag) list \<Rightarrow> world \<Rightarrow> world" where
  "tag_faces [] g = g"
| "tag_faces ((name, surf_tag) # face_map) g =
     (let (pg, g) = model_addPhysicalGroup 2 [surf_tag] [] g;
          g = model_setPhysicalName 2 pg name g
      in tag_faces face_map g)"

text \<open>Lines 127 to 204 of \<^verbatim>\<open>create_cube_mesh\<close>.\<close>

definition cube_shape :: "path \<Rightarrow> real \<Rightarrow> real \<Rightarrow> real \<Rightarrow> real \<Rightarrow> real \<Rightarrow> world \<Rightarrow> world" where
  "cube_shape filepath width height thickness mesh_size center_z g =
     (let g = gmsh_initialize g;
          g = option_setNumber ''General.Verbosity'' 0 g;
          g = option_setNumber ''Mesh.CharacteristicLengthMin'' mesh_size g;
          g = option_setNumber ''Mesh.CharacteristicLengthMax'' mesh_size g;
          g = model_add (stem filepath) g;
          z0 = center_z - thickness / 2;
          z1 = center_z + thickness / 2;
          coords = [(0, 0, z0), (width, 0, z0), (width, height, z0), (0, height, z0),
                    (0, 0, z1), (width, 0, z1), (width, height, z1), (0, height, z1)];
          (pts, g) = add_points coords mesh_size g;
          g = occ_synchronize g;
          (l1, g) = occ_addLine (pts ! 0) (pts ! 1) g;
          (l2, g) = occ_addLine (pts ! 1) (pts ! 2) g;
          (l3, g) = occ_addLine (pts ! 2) (pts ! 3) g;
          (l4, g) = occ_addLine (pts ! 3) (pts ! 0) g;
          (l5, g) = occ_addLine (pts ! 4) (pts ! 5) g;
          (l6, g) = occ_addLine (pts ! 5) (pts ! 6) g;
          (l7, g) = occ_addLine (pts ! 6) (pts ! 7) g;
          (l8, g) = occ_addLine (pts ! 7) (pts ! 4) g;
          (l9, g) = occ_addLine (pts ! 0) (pts ! 4) g;
          (l10, g) = occ_addLine (pts ! 1) (pts ! 5) g;
          (l11, g) = occ_addLine (pts ! 2) (pts ! 6) g;
          (l12, g) = occ_addLine (pts ! 3) (pts ! 7) g;
          g = occ_synchronize g;
          (cl_bot, g) = occ_addCurveLoop [l1, l2, l3, l4] g;
          (cl_top, g) = occ_addCurveLoop [l5, l6, l7, l8] g;
          (cl_front, g) = occ_addCurveLoop [l1, l10, - l5, - l9] g;
          (cl_back, g) = occ_addCurveLoop [- l3, l11, l7, - l12] g;
          (cl_left, g) = occ_addCurveLoop [l9, - l8, - l12, l4] g;
          (cl_right, g) = occ_addCurveLoop [l10, l6, - l11, - l2] g;
          g = occ_synchronize g;
          (s_bot, g) = occ_addPlaneSurface [cl_bot] g;
          (s_top, g) = occ_addPlaneSurface [cl_top] g;
          (s_front, g) = occ_addPlaneSurface [cl_front] g;
          (s_back, g) = occ_addPlaneSurface [cl_back] g;
          (s_left, g) = occ_addPlaneSurface [cl_left] g;
          (s_right, g) = occ_addPlaneSurface [cl_right] g;
          g = occ_synchronize g;
          (sl, g) = occ_addSurfaceLoop [s_bot, s_top, s_front, s_back, s_left, s_right] g;
          (vol, g) = occ_addVolume [sl] g;
          g = occ_synchronize g;
          (pg0, g) = model_addPhysicalGroup 0 pts [] g;
          g = model_setPhysicalName 0 pg0 ''points'' g;
          all_edges = [l1, l2, l3, l4, l5, l6, l7, l8, l9, l10, l11, l12];
          (pg1, g) = model_addPhysicalGroup 1 all_edges [] g;
          g = model_setPhysicalName 1 pg1 ''edges'' g;
          face_map = [(''bottom'', s_bot), (''top'', s_top), (''front'', s_front),
                      (''back'', s_back), (''left'', s_left), (''right'', s_right)];
          g = tag_faces face_map g;
          (pg3, g) = model_addPhysicalGroup 3 [vol] [] g;
          g = model_setPhysicalName 3 pg3 ''volume'' g
      in g)"


section \<open>Reading a shape\<close>

text \<open>The entity lists of the groups of one dimension that carry a name.\<close>

definition tagged :: "model \<Rightarrow> nat \<Rightarrow> string \<Rightarrow> tag list list" where
  "tagged m d name =
     map pg_entities (filter (\<lambda>pg. pg_dim pg = d \<and> pg_name pg = name) (physical m))"

text \<open>
  A signed curve reference: a positive tag runs the curve from its start point to its
  end point, a negative one runs it backwards.
\<close>

definition curve_ends :: "model \<Rightarrow> tag \<Rightarrow> (tag \<times> tag) option" where
  "curve_ends m e =
     (if 0 < e then entity (curves m) e
      else if e < 0 then map_option prod.swap (entity (curves m) (- e))
      else None)"

fun joined :: "(tag \<times> tag) list \<Rightarrow> bool" where
  "joined (a # b # rest) = (snd a = fst b \<and> joined (b # rest))"
| "joined _ = True"

text \<open>
  A loop closes when every reference names a curve, each curve ends where the next one
  starts, and the last one ends where the first one starts.
\<close>

definition loop_closed :: "model \<Rightarrow> tag list \<Rightarrow> bool" where
  "loop_closed m es =
     (case those (map (curve_ends m) es) of
        None \<Rightarrow> False
      | Some [] \<Rightarrow> False
      | Some (a # rest) \<Rightarrow> joined (a # rest @ [a]))"

text \<open>The coordinates of the two ends of a curve.\<close>

definition xyz :: "point \<Rightarrow> real \<times> real \<times> real" where
  "xyz p = (px p, py p, pz p)"

definition curve_xyz :: "model \<Rightarrow> tag \<Rightarrow> ((real \<times> real \<times> real) \<times> (real \<times> real \<times> real)) option" where
  "curve_xyz m l =
     (case entity (curves m) l of
        None \<Rightarrow> None
      | Some (a, b) \<Rightarrow>
          (case (entity (points m) a, entity (points m) b) of
             (Some p, Some q) \<Rightarrow> Some (xyz p, xyz q)
           | _ \<Rightarrow> None))"

text \<open>A property of the entity a tag stands for; it fails for an unknown tag.\<close>

definition holds_at :: "'a list \<Rightarrow> tag \<Rightarrow> ('a \<Rightarrow> bool) \<Rightarrow> bool" where
  "holds_at xs t P = (case entity xs t of None \<Rightarrow> False | Some x \<Rightarrow> P x)"

text \<open>Every face is bounded by at least one loop, and each of its loops exists and closes.\<close>

definition faces_closed :: "model \<Rightarrow> bool" where
  "faces_closed m =
     list_all (\<lambda>wires. wires \<noteq> [] \<and> list_all (\<lambda>cl. holds_at (curve_loops m) cl (loop_closed m)) wires)
       (surfaces m)"

text \<open>The loops that run along a curve, in either direction, and how they do it.\<close>

definition loops_with :: "model \<Rightarrow> tag \<Rightarrow> tag list list" where
  "loops_with m l = filter (\<lambda>es. l \<in> set es \<or> - l \<in> set es) (curve_loops m)"

definition times_in :: "tag \<Rightarrow> tag list \<Rightarrow> nat" where
  "times_in l es = length (filter (\<lambda>e. e = l \<or> e = - l) es)"

definition opposite_in :: "tag \<Rightarrow> tag list \<Rightarrow> tag list \<Rightarrow> bool" where
  "opposite_in l a b = ((l \<in> set a \<and> - l \<in> set b) \<or> (- l \<in> set a \<and> l \<in> set b))"

definition same_in :: "tag \<Rightarrow> tag list \<Rightarrow> tag list \<Rightarrow> bool" where
  "same_in l a b = ((l \<in> set a \<and> l \<in> set b) \<or> (- l \<in> set a \<and> - l \<in> set b))"

text \<open>A curve shared by exactly two loops, each running along it once.\<close>

definition shared_by_two :: "model \<Rightarrow> tag \<Rightarrow> bool" where
  "shared_by_two m l =
     (case loops_with m l of [a, b] \<Rightarrow> times_in l a = 1 \<and> times_in l b = 1 | _ \<Rightarrow> False)"

definition shared_opposite :: "model \<Rightarrow> tag \<Rightarrow> bool" where
  "shared_opposite m l = (case loops_with m l of [a, b] \<Rightarrow> opposite_in l a b | _ \<Rightarrow> False)"

definition shared_same :: "model \<Rightarrow> tag \<Rightarrow> bool" where
  "shared_same m l = (case loops_with m l of [a, b] \<Rightarrow> same_in l a b | _ \<Rightarrow> False)"

text \<open>Whether a point lies between the lower and the upper side of the rectangle.\<close>

definition in_vertical_extent :: "real \<Rightarrow> real \<Rightarrow> point \<Rightarrow> bool" where
  "in_vertical_extent center_z height p =
     (center_z - height / 2 \<le> py p \<and> py p \<le> center_z + height / 2)"

definition shift_y :: "real \<Rightarrow> point \<Rightarrow> point" where
  "shift_y d p = p\<lparr>py := py p + d\<rparr>"

definition shift_z :: "real \<Rightarrow> point \<Rightarrow> point" where
  "shift_z d p = p\<lparr>pz := pz p + d\<rparr>"

text \<open>
  The side a face looks to. The vertices of a loop are the start points of its signed
  curves; the cross products of consecutive vertices sum to twice the area vector of the
  polygon (its normal by the right-hand rule). The face looks away from the body when
  that vector points from the centre of the body to the centre of the face.
\<close>

type_synonym vec = "real \<times> real \<times> real"

fun vadd :: "vec \<Rightarrow> vec \<Rightarrow> vec" where
  "vadd (a1, a2, a3) (b1, b2, b3) = (a1 + b1, a2 + b2, a3 + b3)"

fun vsub :: "vec \<Rightarrow> vec \<Rightarrow> vec" where
  "vsub (a1, a2, a3) (b1, b2, b3) = (a1 - b1, a2 - b2, a3 - b3)"

fun cross :: "vec \<Rightarrow> vec \<Rightarrow> vec" where
  "cross (a1, a2, a3) (b1, b2, b3) = (a2 * b3 - a3 * b2, a3 * b1 - a1 * b3, a1 * b2 - a2 * b1)"

fun dot :: "vec \<Rightarrow> vec \<Rightarrow> real" where
  "dot (a1, a2, a3) (b1, b2, b3) = a1 * b1 + a2 * b2 + a3 * b3"

fun cyc_cross :: "vec list \<Rightarrow> vec" where
  "cyc_cross (a # b # rest) = vadd (cross a b) (cyc_cross (b # rest))"
| "cyc_cross _ = (0, 0, 0)"

definition loop_normal :: "vec list \<Rightarrow> vec" where
  "loop_normal vs = (case vs of [] \<Rightarrow> (0, 0, 0) | a # rest \<Rightarrow> cyc_cross (a # rest @ [a]))"

fun vsum :: "vec list \<Rightarrow> vec" where
  "vsum [] = (0, 0, 0)"
| "vsum (a # rest) = vadd a (vsum rest)"

fun vdiv :: "vec \<Rightarrow> real \<Rightarrow> vec" where
  "vdiv (a1, a2, a3) c = (a1 / c, a2 / c, a3 / c)"

definition centroid :: "vec list \<Rightarrow> vec" where
  "centroid vs = vdiv (vsum vs) (real (length vs))"

definition loop_vertices :: "model \<Rightarrow> tag list \<Rightarrow> vec list option" where
  "loop_vertices m es =
     those (map (\<lambda>e. case curve_ends m e of
                        None \<Rightarrow> None
                      | Some (a, b) \<Rightarrow> map_option xyz (entity (points m) a)) es)"

definition facing :: "model \<Rightarrow> tag list \<Rightarrow> real option" where
  "facing m es =
     (case loop_vertices m es of
        None \<Rightarrow> None
      | Some vs \<Rightarrow>
          Some (dot (loop_normal vs) (vsub (centroid vs) (centroid (map xyz (points m))))))"

definition outward :: "model \<Rightarrow> tag list \<Rightarrow> bool" where
  "outward m es = (case facing m es of None \<Rightarrow> False | Some d \<Rightarrow> 0 < d)"

definition inward :: "model \<Rightarrow> tag list \<Rightarrow> bool" where
  "inward m es = (case facing m es of None \<Rightarrow> False | Some d \<Rightarrow> d < 0)"

text \<open>Concrete inputs: a state in which no session is open, two engines, a path.\<close>

definition fresh :: world where
  "fresh = \<lparr>initialized = False, options = Map.empty, current = empty_model [], files = []\<rparr>"



definition out_path :: path where
  "out_path = \<lparr>parent = ''out/'', stem = ''shape'', suffix = ''.geo''\<rparr>"

section \<open>Properties\<close>

text \<open>
  Each engine call on a state that is written out field by field. Running a builder
  then rewrites one written-out state into the next.
\<close>

lemma occ_addPoint_lit:
  "occ_addPoint x y z meshSize \<lparr>initialized = i, options = opts, current = \<lparr>model_name = n, points = ps, curves = cs, curve_loops = cls, surfaces = ss, surface_loops = sls, volumes = vs, physical = phs, meshed = me\<rparr>, files = fs\<rparr> =
     (int (length ps) + 1, \<lparr>initialized = i, options = opts, current = \<lparr>model_name = n, points = ps @ [\<lparr>px = x, py = y, pz = z, lc = meshSize\<rparr>], curves = cs, curve_loops = cls, surfaces = ss, surface_loops = sls, volumes = vs, physical = phs, meshed = me\<rparr>, files = fs\<rparr>)"
  by (simp add: occ_addPoint_def next_tag_def)

lemma occ_addLine_lit:
  "occ_addLine a b \<lparr>initialized = i, options = opts, current = \<lparr>model_name = n, points = ps, curves = cs, curve_loops = cls, surfaces = ss, surface_loops = sls, volumes = vs, physical = phs, meshed = me\<rparr>, files = fs\<rparr> =
     (int (length cs) + 1, \<lparr>initialized = i, options = opts, current = \<lparr>model_name = n, points = ps, curves = cs @ [(a, b)], curve_loops = cls, surfaces = ss, surface_loops = sls, volumes = vs, physical = phs, meshed = me\<rparr>, files = fs\<rparr>)"
  by (simp add: occ_addLine_def next_tag_def)

lemma occ_addCurveLoop_lit:
  "occ_addCurveLoop ts \<lparr>initialized = i, options = opts, current = \<lparr>model_name = n, points = ps, curves = cs, curve_loops = cls, surfaces = ss, surface_loops = sls, volumes = vs, physical = phs, meshed = me\<rparr>, files = fs\<rparr> =
     (int (length cls) + 1, \<lparr>initialized = i, options = opts, current = \<lparr>model_name = n, points = ps, curves = cs, curve_loops = cls @ [ts], surfaces = ss, surface_loops = sls, volumes = vs, physical = phs, meshed = me\<rparr>, files = fs\<rparr>)"
  by (simp add: occ_addCurveLoop_def next_tag_def)

lemma occ_addPlaneSurface_lit:
  "occ_addPlaneSurface ts \<lparr>initialized = i, options = opts, current = \<lparr>model_name = n, points = ps, curves = cs, curve_loops = cls, surfaces = ss, surface_loops = sls, volumes = vs, physical = phs, meshed = me\<rparr>, files = fs\<rparr> =
     (int (length ss) + 1, \<lparr>initialized = i, options = opts, current = \<lparr>model_name = n, points = ps, curves = cs, curve_loops = cls, surfaces = ss @ [ts], surface_loops = sls, volumes = vs, physical = phs, meshed = me\<rparr>, files = fs\<rparr>)"
  by (simp add: occ_addPlaneSurface_def next_tag_def)

lemma occ_addSurfaceLoop_lit:
  "occ_addSurfaceLoop ts \<lparr>initialized = i, options = opts, current = \<lparr>model_name = n, points = ps, curves = cs, curve_loops = cls, surfaces = ss, surface_loops = sls, volumes = vs, physical = phs, meshed = me\<rparr>, files = fs\<rparr> =
     (int (length sls) + 1, \<lparr>initialized = i, options = opts, current = \<lparr>model_name = n, points = ps, curves = cs, curve_loops = cls, surfaces = ss, surface_loops = sls @ [ts], volumes = vs, physical = phs, meshed = me\<rparr>, files = fs\<rparr>)"
  by (simp add: occ_addSurfaceLoop_def next_tag_def)

lemma occ_addVolume_lit:
  "occ_addVolume ts \<lparr>initialized = i, options = opts, current = \<lparr>model_name = n, points = ps, curves = cs, curve_loops = cls, surfaces = ss, surface_loops = sls, volumes = vs, physical = phs, meshed = me\<rparr>, files = fs\<rparr> =
     (int (length vs) + 1, \<lparr>initialized = i, options = opts, current = \<lparr>model_name = n, points = ps, curves = cs, curve_loops = cls, surfaces = ss, surface_loops = sls, volumes = vs @ [ts], physical = phs, meshed = me\<rparr>, files = fs\<rparr>)"
  by (simp add: occ_addVolume_def next_tag_def)

lemma model_addPhysicalGroup_lit:
  "model_addPhysicalGroup d ts name \<lparr>initialized = i, options = opts, current = \<lparr>model_name = n, points = ps, curves = cs, curve_loops = cls, surfaces = ss, surface_loops = sls, volumes = vs, physical = phs, meshed = me\<rparr>, files = fs\<rparr> =
     (int (length phs) + 1, \<lparr>initialized = i, options = opts, current = \<lparr>model_name = n, points = ps, curves = cs, curve_loops = cls, surfaces = ss, surface_loops = sls, volumes = vs, physical = phs @ [\<lparr>pg_dim = d, pg_tag = int (length phs) + 1, pg_entities = ts, pg_name = name\<rparr>], meshed = me\<rparr>, files = fs\<rparr>)"
  by (simp add: model_addPhysicalGroup_def next_tag_def Let_def)

lemma model_setPhysicalName_lit:
  "model_setPhysicalName d t name \<lparr>initialized = i, options = opts, current = \<lparr>model_name = n, points = ps, curves = cs, curve_loops = cls, surfaces = ss, surface_loops = sls, volumes = vs, physical = phs, meshed = me\<rparr>, files = fs\<rparr> =
     \<lparr>initialized = i, options = opts, current = \<lparr>model_name = n, points = ps, curves = cs, curve_loops = cls, surfaces = ss, surface_loops = sls, volumes = vs, physical = map (\<lambda>pg. if pg_dim pg = d \<and> pg_tag pg = t then pg\<lparr>pg_name := name\<rparr> else pg) phs, meshed = me\<rparr>, files = fs\<rparr>"
  by (simp add: model_setPhysicalName_def)

lemma session_start_lit:
  "model_add n (option_setNumber c w (option_setNumber b v (option_setNumber a u (gmsh_initialize g)))) =
     \<lparr>initialized = True, options = (options g)(a \<mapsto> u, b \<mapsto> v, c \<mapsto> w),
      current = \<lparr>model_name = n, points = [], curves = [], curve_loops = [], surfaces = [],
        surface_loops = [], volumes = [], physical = [], meshed = None\<rparr>,
      files = files g\<rparr>"
  by (simp add: model_add_def option_setNumber_def gmsh_initialize_def empty_model_def)

lemmas lits = session_start_lit occ_addPoint_lit occ_addLine_lit occ_addCurveLoop_lit occ_addPlaneSurface_lit occ_addSurfaceLoop_lit occ_addVolume_lit model_addPhysicalGroup_lit model_setPhysicalName_lit

subsection \<open>The shapes the builders reach\<close>

lemma rectangle_shape_current:
  "current (rectangle_shape filepath width height mesh_size center_z g) =
     \<lparr>model_name = stem filepath,
      points = [\<lparr>px = 0, py = center_z + height / 2, pz = 0, lc = mesh_size\<rparr>,
                \<lparr>px = width, py = center_z + height / 2, pz = 0, lc = mesh_size\<rparr>,
                \<lparr>px = width, py = center_z - height / 2, pz = 0, lc = mesh_size\<rparr>,
                \<lparr>px = 0, py = center_z - height / 2, pz = 0, lc = mesh_size\<rparr>],
      curves = [(1, 2), (2, 3), (3, 4), (4, 1)],
      curve_loops = [[1, 2, 3, 4]],
      surfaces = [[1]],
      surface_loops = [],
      volumes = [],
      physical = [\<lparr>pg_dim = 2, pg_tag = 1, pg_entities = [1], pg_name = ''domain''\<rparr>,
                  \<lparr>pg_dim = 1, pg_tag = 2, pg_entities = [1], pg_name = ''top''\<rparr>,
                  \<lparr>pg_dim = 1, pg_tag = 3, pg_entities = [2], pg_name = ''right''\<rparr>,
                  \<lparr>pg_dim = 1, pg_tag = 4, pg_entities = [3], pg_name = ''bottom''\<rparr>,
                  \<lparr>pg_dim = 1, pg_tag = 5, pg_entities = [4], pg_name = ''left''\<rparr>],
      meshed = None\<rparr>"
  by (simp add: rectangle_shape_def Let_def lits occ_synchronize_def)

lemma rectangle_frac_shape_current:
  "current (rectangle_frac_shape filepath width height mesh_size center_z mode g) =
     \<lparr>model_name = stem filepath,
      points = [\<lparr>px = 0, py = center_z + height / 2, pz = 0, lc = mesh_size\<rparr>,
                \<lparr>px = width, py = center_z + height / 2, pz = 0, lc = mesh_size\<rparr>,
                \<lparr>px = width, py = center_z - height / 2, pz = 0, lc = mesh_size\<rparr>,
                \<lparr>px = 0, py = center_z - height / 2, pz = 0, lc = mesh_size\<rparr>,
                \<lparr>px = 0, py = center_z - width * tan (radians 30) / 2, pz = 0, lc = mesh_size\<rparr>,
                \<lparr>px = width, py = center_z + width * tan (radians 30) / 2, pz = 0,
                   lc = mesh_size\<rparr>],
      curves = [(2, 1), (1, 5), (5, 4), (4, 3), (3, 6), (6, 2), (6, 5)],
      curve_loops = [[1, 2, - 7, 6], [4, 5, 7, 3]],
      surfaces = [[1], [2]],
      surface_loops = [],
      volumes = [],
      physical =
        (if mode = ''BC'' then
           [\<lparr>pg_dim = 1, pg_tag = 1, pg_entities = [1], pg_name = ''top''\<rparr>,
            \<lparr>pg_dim = 1, pg_tag = 2, pg_entities = [4], pg_name = ''bottom''\<rparr>,
            \<lparr>pg_dim = 1, pg_tag = 3, pg_entities = [5, 6], pg_name = ''right''\<rparr>,
            \<lparr>pg_dim = 1, pg_tag = 4, pg_entities = [2, 3], pg_name = ''left''\<rparr>,
            \<lparr>pg_dim = 0, pg_tag = 5, pg_entities = [4], pg_name = ''p4''\<rparr>]
         else if mode = ''domain'' then
           [\<lparr>pg_dim = 2, pg_tag = 1, pg_entities = [1], pg_name = ''top_surf''\<rparr>,
            \<lparr>pg_dim = 2, pg_tag = 2, pg_entities = [2], pg_name = ''bot_surf''\<rparr>,
            \<lparr>pg_dim = 1, pg_tag = 3, pg_entities = [7], pg_name = ''fracture''\<rparr>]
         else []),
      meshed = None\<rparr>"
  by (simp add: rectangle_frac_shape_def Let_def lits occ_synchronize_def)

lemma cube_shape_current:
  "current (cube_shape filepath width height thickness mesh_size center_z g) =
     \<lparr>model_name = stem filepath,
      points = [\<lparr>px = 0, py = 0, pz = center_z - thickness / 2, lc = mesh_size\<rparr>,
                \<lparr>px = width, py = 0, pz = center_z - thickness / 2, lc = mesh_size\<rparr>,
                \<lparr>px = width, py = height, pz = center_z - thickness / 2, lc = mesh_size\<rparr>,
                \<lparr>px = 0, py = height, pz = center_z - thickness / 2, lc = mesh_size\<rparr>,
                \<lparr>px = 0, py = 0, pz = center_z + thickness / 2, lc = mesh_size\<rparr>,
                \<lparr>px = width, py = 0, pz = center_z + thickness / 2, lc = mesh_size\<rparr>,
                \<lparr>px = width, py = height, pz = center_z + thickness / 2, lc = mesh_size\<rparr>,
                \<lparr>px = 0, py = height, pz = center_z + thickness / 2, lc = mesh_size\<rparr>],
      curves = [(1, 2), (2, 3), (3, 4), (4, 1), (5, 6), (6, 7), (7, 8), (8, 5),
                (1, 5), (2, 6), (3, 7), (4, 8)],
      curve_loops = [[1, 2, 3, 4], [5, 6, 7, 8], [1, 10, - 5, - 9], [- 3, 11, 7, - 12],
                     [9, - 8, - 12, 4], [10, 6, - 11, - 2]],
      surfaces = [[1], [2], [3], [4], [5], [6]],
      surface_loops = [[1, 2, 3, 4, 5, 6]],
      volumes = [[1]],
      physical =
        [\<lparr>pg_dim = 0, pg_tag = 1, pg_entities = [1, 2, 3, 4, 5, 6, 7, 8], pg_name = ''points''\<rparr>,
         \<lparr>pg_dim = 1, pg_tag = 2, pg_entities = [1, 2, 3, 4, 5, 6, 7, 8, 9, 10, 11, 12],
            pg_name = ''edges''\<rparr>,
         \<lparr>pg_dim = 2, pg_tag = 3, pg_entities = [1], pg_name = ''bottom''\<rparr>,
         \<lparr>pg_dim = 2, pg_tag = 4, pg_entities = [2], pg_name = ''top''\<rparr>,
         \<lparr>pg_dim = 2, pg_tag = 5, pg_entities = [3], pg_name = ''front''\<rparr>,
         \<lparr>pg_dim = 2, pg_tag = 6, pg_entities = [4], pg_name = ''back''\<rparr>,
         \<lparr>pg_dim = 2, pg_tag = 7, pg_entities = [5], pg_name = ''left''\<rparr>,
         \<lparr>pg_dim = 2, pg_tag = 8, pg_entities = [6], pg_name = ''right''\<rparr>,
         \<lparr>pg_dim = 3, pg_tag = 9, pg_entities = [1], pg_name = ''volume''\<rparr>],
      meshed = None\<rparr>"
  by (simp add: cube_shape_def Let_def lits occ_synchronize_def)




subsection \<open>Facts about the fracture angle and the prism\<close>

lemma tan_radians_30: "tan (radians 30) = 1 / sqrt 3"
proof -
  have "tan (radians 30) = tan (pi / 6)" by (simp add: radians_def)
  also have "\<dots> = 1 / sqrt 3" by (rule tan_30)
  finally show ?thesis .
qed

lemma sqrt_3_bounds: "1 < sqrt 3 \<and> sqrt 3 < 2"
proof
  show "1 < sqrt 3" by (rule real_less_rsqrt) simp
  show "sqrt 3 < 2" by (rule real_less_lsqrt) simp_all
qed

lemma cube_loop_vertices:
  "map (loop_vertices (current (cube_shape p w h t s z g)))
       (curve_loops (current (cube_shape p w h t s z g))) =
     [Some [(0, 0, z - t / 2), (w, 0, z - t / 2), (w, h, z - t / 2), (0, h, z - t / 2)],
      Some [(0, 0, z + t / 2), (w, 0, z + t / 2), (w, h, z + t / 2), (0, h, z + t / 2)],
      Some [(0, 0, z - t / 2), (w, 0, z - t / 2), (w, 0, z + t / 2), (0, 0, z + t / 2)],
      Some [(0, h, z - t / 2), (w, h, z - t / 2), (w, h, z + t / 2), (0, h, z + t / 2)],
      Some [(0, 0, z - t / 2), (0, 0, z + t / 2), (0, h, z + t / 2), (0, h, z - t / 2)],
      Some [(w, 0, z - t / 2), (w, 0, z + t / 2), (w, h, z + t / 2), (w, h, z - t / 2)]]"
  by (simp add: cube_shape_current loop_vertices_def curve_ends_def entity_def xyz_def)

lemma cube_centre:
  "centroid (map xyz (points (current (cube_shape p w h t s z g)))) = (w / 2, h / 2, z)"
  by (simp add: cube_shape_current centroid_def xyz_def)

lemma cube_loops: "curve_loops (current (cube_shape p w h t s z g)) =
  [[1, 2, 3, 4], [5, 6, 7, 8], [1, 10, - 5, - 9], [- 3, 11, 7, - 12],
                     [9, - 8, - 12, 4], [10, 6, - 11, - 2]]"
  by (simp add: cube_shape_current)

lemma cube_facing:
  "map (facing (current (cube_shape p w h t s z g)))
       (curve_loops (current (cube_shape p w h t s z g))) =
     [Some (- (w * h * t)), Some (w * h * t), Some (w * h * t),
      Some (- (w * h * t)), Some (w * h * t), Some (- (w * h * t))]"
  using cube_loop_vertices [of p w h t s z g]
  apply (simp add: cube_loops facing_def cube_centre loop_normal_def)
  apply (simp add: centroid_def field_simps)
  done

section \<open>The claims\<close>

text \<open>
  C9. For all valid \<open>(w, h, s)\<close> the rectangle builder produces exactly 4 points, 4 edges,
  1 closed edge loop and 1 face bounded by it; the tag \<open>domain\<close> covers exactly that face
  and the tags \<open>top\<close>, \<open>right\<close>, \<open>bottom\<close>, \<open>left\<close> cover the four edges in the order in
  which the loop runs through them. For \<open>w = 2\<close>, \<open>h = 1\<close> and no offset the points are
  \<open>(0, 0.5)\<close>, \<open>(2, 0.5)\<close>, \<open>(2, -0.5)\<close>, \<open>(0, -0.5)\<close> and \<open>top\<close> is the edge from
  \<open>(0, 0.5)\<close> to \<open>(2, 0.5)\<close>.
\<close>

theorem rectangle_builder_shape:
  assumes "0 < w" and "0 < h" and "0 < s"
  shows "length (points (current (rectangle_shape p w h s z g))) = 4
    \<and> length (curves (current (rectangle_shape p w h s z g))) = 4
    \<and> curve_loops (current (rectangle_shape p w h s z g)) = [[1, 2, 3, 4]]
    \<and> loop_closed (current (rectangle_shape p w h s z g)) [1, 2, 3, 4]
    \<and> surfaces (current (rectangle_shape p w h s z g)) = [[1]]
    \<and> map pg_name (physical (current (rectangle_shape p w h s z g))) =
          [''domain'', ''top'', ''right'', ''bottom'', ''left'']
    \<and> tagged (current (rectangle_shape p w h s z g)) 2 ''domain'' = [[1]]
    \<and> map (tagged (current (rectangle_shape p w h s z g)) 1)
          [''top'', ''right'', ''bottom'', ''left''] = [[[1]], [[2]], [[3]], [[4]]]
    \<and> map xyz (points (current (rectangle_shape p 2 1 s 0 g))) =
          [(0, 1 / 2, 0), (2, 1 / 2, 0), (2, - (1 / 2), 0), (0, - (1 / 2), 0)]
    \<and> tagged (current (rectangle_shape p 2 1 s 0 g)) 1 ''top'' = [[1]]
    \<and> curve_xyz (current (rectangle_shape p 2 1 s 0 g)) 1 = Some ((0, 1 / 2, 0), (2, 1 / 2, 0))"
  by (simp add: rectangle_shape_current tagged_def loop_closed_def curve_ends_def entity_def
      curve_xyz_def xyz_def)

theorem rectangle_builder_shape_witness:
  "(0::real) < 2 \<and> (0::real) < 1 \<and> (0::real) < 1 / 10
    \<and> length (points (current (rectangle_shape out_path 2 1 (1 / 10) 0 fresh))) = 4
    \<and> tagged (current (rectangle_shape out_path 2 1 (1 / 10) 0 fresh)) 1 ''top'' = [[1]]
    \<and> curve_xyz (current (rectangle_shape out_path 2 1 (1 / 10) 0 fresh)) 1 =
          Some ((0, 1 / 2, 0), (2, 1 / 2, 0))"
  using rectangle_builder_shape [where w = 2 and h = 1 and s = "1 / 10" and p = out_path
      and z = 0 and g = fresh]
  by simp




text \<open>
  C3 as stated: for every valid width and height the two fracture end points lie within
  the vertical extent of the rectangle. For width 10 and height 1 the left end point lies
  below the lower side.
\<close>

theorem fracture_endpoint_below_rectangle:
  "\<not> holds_at (points (current (rectangle_frac_shape out_path 10 1 (1 / 10) 0 ''domain'' fresh)))
        5 (in_vertical_extent 0 1)"
proof -
  have "sqrt 3 < 10" using sqrt_3_bounds by simp
  then show ?thesis
    by (simp add: rectangle_frac_shape_current holds_at_def entity_def in_vertical_extent_def
        tan_radians_30 field_simps)
qed

text \<open>
  C3, amended. For every positive width and height the two fracture end points have the
  abscissas of the left and the right side (\<open>x = 0\<close> and \<open>x = w\<close>, as the corners of
  these sides have) and the ordinates \<open>z \<mp> w \<cdot> tan(30\<degree>) / 2\<close>; both lie within the
  vertical extent of the rectangle exactly when \<open>w \<cdot> tan(30\<degree>) \<le> h\<close>.
\<close>

theorem fracture_endpoints_on_side_lines:
  assumes "0 < w" and "0 < h"
  shows "holds_at (points (current (rectangle_frac_shape p w h s z mode g))) 5
           (\<lambda>q. px q = 0 \<and> py q = z - w * tan (radians 30) / 2)
    \<and> holds_at (points (current (rectangle_frac_shape p w h s z mode g))) 6
           (\<lambda>q. px q = w \<and> py q = z + w * tan (radians 30) / 2)
    \<and> map px (points (current (rectangle_frac_shape p w h s z mode g))) = [0, w, w, 0, 0, w]
    \<and> (holds_at (points (current (rectangle_frac_shape p w h s z mode g))) 5
            (in_vertical_extent z h)
        \<and> holds_at (points (current (rectangle_frac_shape p w h s z mode g))) 6
            (in_vertical_extent z h))
       = (w * tan (radians 30) \<le> h)"
proof -
  have pos: "0 < w * tan (radians 30)"
    using assms(1) by (simp add: tan_radians_30)
  have "(z - h / 2 \<le> z - w * tan (radians 30) / 2 \<and> z - w * tan (radians 30) / 2 \<le> z + h / 2
         \<and> z - h / 2 \<le> z + w * tan (radians 30) / 2 \<and> z + w * tan (radians 30) / 2 \<le> z + h / 2)
        = (w * tan (radians 30) \<le> h)"
    using pos assms(2) by auto
  then show ?thesis
    by (simp add: rectangle_frac_shape_current holds_at_def entity_def in_vertical_extent_def
        conj_ac)
qed

theorem fracture_endpoints_on_side_lines_witness:
  "(0::real) < 10 \<and> (0::real) < 1
    \<and> holds_at (points (current (rectangle_frac_shape out_path 10 1 (1 / 10) 0 ''BC'' fresh))) 5
           (\<lambda>q. px q = 0 \<and> py q = 0 - 10 * tan (radians 30) / 2)
    \<and> map px (points (current (rectangle_frac_shape out_path 10 1 (1 / 10) 0 ''BC'' fresh))) =
          [0, 10, 10, 0, 0, 10]"
  using fracture_endpoints_on_side_lines [where w = 10 and h = 1 and p = out_path
      and s = "1 / 10" and z = 0 and mode = "''BC''" and g = fresh]
  by simp







text \<open>
  C6. For every width \<open>w\<close> and every centre offset \<open>z0\<close> the fracture runs from the right
  end point \<open>(w, z0 + w \<cdot> tan(30\<degree>) / 2)\<close> to the left end point \<open>(0, z0 - w \<cdot> tan(30\<degree>) / 2)\<close>.
  The angle is the constant 30 degrees, that is \<open>\<pi> / 6\<close>, whose tangent is \<open>1 / \<surd>3\<close>; the
  builder has no parameter for it.
\<close>

theorem fracture_endpoint_formula:
  "holds_at (points (current (rectangle_frac_shape p w h s z0 mode g))) 5
       (\<lambda>q. xyz q = (0, z0 - w * tan (pi / 6) / 2, 0))
    \<and> holds_at (points (current (rectangle_frac_shape p w h s z0 mode g))) 6
       (\<lambda>q. xyz q = (w, z0 + w * tan (pi / 6) / 2, 0))
    \<and> curve_xyz (current (rectangle_frac_shape p w h s z0 mode g)) 7 =
         Some ((w, z0 + w * tan (pi / 6) / 2, 0), (0, z0 - w * tan (pi / 6) / 2, 0))
    \<and> tagged (current (rectangle_frac_shape p w h s z0 ''domain'' g)) 1 ''fracture'' = [[7]]
    \<and> radians 30 = pi / 6 \<and> tan (radians 30) = 1 / sqrt 3"
proof -
  have r: "radians 30 = pi / 6" by (simp add: radians_def)
  have "tan (radians 30) = 1 / sqrt 3" by (rule tan_radians_30)
  then show ?thesis
    unfolding r
    by (simp add: rectangle_frac_shape_current r holds_at_def entity_def curve_xyz_def xyz_def
        tagged_def)
qed

theorem fracture_endpoint_formula_witness:
  "holds_at (points (current (rectangle_frac_shape out_path 2 1 (1 / 10) 3 ''BC'' fresh))) 5
       (\<lambda>q. xyz q = (0, 3 - 2 * tan (pi / 6) / 2, 0))
    \<and> holds_at (points (current (rectangle_frac_shape out_path 2 1 (1 / 10) 3 ''BC'' fresh))) 6
       (\<lambda>q. xyz q = (2, 3 + 2 * tan (pi / 6) / 2, 0))"
  using fracture_endpoint_formula [of out_path 2 1 "1 / 10" 3 "''BC''" fresh]
  by simp



text \<open>
  C8. In all three builders every edge loop closes (each signed edge ends at the point
  where the next one starts, the last one where the first one starts), and every face is
  built from such a loop.
\<close>

theorem edge_loops_close:
  "list_all (loop_closed (current (rectangle_shape p w h s z g)))
       (curve_loops (current (rectangle_shape p w h s z g)))
    \<and> faces_closed (current (rectangle_shape p w h s z g))
    \<and> length (surfaces (current (rectangle_shape p w h s z g))) = 1
    \<and> list_all (loop_closed (current (rectangle_frac_shape p w h s z mode g)))
       (curve_loops (current (rectangle_frac_shape p w h s z mode g)))
    \<and> faces_closed (current (rectangle_frac_shape p w h s z mode g))
    \<and> length (surfaces (current (rectangle_frac_shape p w h s z mode g))) = 2
    \<and> list_all (loop_closed (current (cube_shape p w h t s z g)))
       (curve_loops (current (cube_shape p w h t s z g)))
    \<and> faces_closed (current (cube_shape p w h t s z g))
    \<and> length (surfaces (current (cube_shape p w h t s z g))) = 6"
  by (simp add: rectangle_shape_current rectangle_frac_shape_current cube_shape_current
      faces_closed_def holds_at_def loop_closed_def curve_ends_def entity_def)

theorem edge_loops_close_witness:
  "faces_closed (current (rectangle_shape out_path 2 1 (1 / 10) 0 fresh))
    \<and> faces_closed (current (rectangle_frac_shape out_path 2 1 (1 / 10) 0 ''BC'' fresh))
    \<and> faces_closed (current (cube_shape out_path 2 1 1 (1 / 10) 0 fresh))"
  using edge_loops_close [of out_path 2 1 "1 / 10" 0 fresh "''BC''" 1]
  by simp

text \<open>
  C10. The centre offset moves the two planar shapes along the second axis and the prism
  along the third. In the rectangle and in the fractured rectangle every point has third
  coordinate 0 and the points are those of the call without offset moved by \<open>center_z\<close>
  in \<open>y\<close>, the corners at \<open>center_z \<plusminus> height / 2\<close>. In the prism the points are
  those of the call without offset moved by \<open>center_z\<close> in \<open>z\<close>, the two layers at
  \<open>center_z \<plusminus> thickness / 2\<close>, and \<open>x\<close> and \<open>y\<close> do not depend on the offset.
\<close>

theorem center_offset_axis:
  "points (current (rectangle_shape p w h s center_z g)) =
       map (shift_y center_z) (points (current (rectangle_shape p w h s 0 g)))
    \<and> map pz (points (current (rectangle_shape p w h s center_z g))) = [0, 0, 0, 0]
    \<and> map py (points (current (rectangle_shape p w h s center_z g))) =
         [center_z + h / 2, center_z + h / 2, center_z - h / 2, center_z - h / 2]
    \<and> points (current (rectangle_frac_shape p w h s center_z mode g)) =
         map (shift_y center_z) (points (current (rectangle_frac_shape p w h s 0 mode g)))
    \<and> map pz (points (current (rectangle_frac_shape p w h s center_z mode g))) =
         [0, 0, 0, 0, 0, 0]
    \<and> take 4 (map py (points (current (rectangle_frac_shape p w h s center_z mode g)))) =
         [center_z + h / 2, center_z + h / 2, center_z - h / 2, center_z - h / 2]
    \<and> points (current (cube_shape p w h t s center_z g)) =
         map (shift_z center_z) (points (current (cube_shape p w h t s 0 g)))
    \<and> map pz (points (current (cube_shape p w h t s center_z g))) =
         [center_z - t / 2, center_z - t / 2, center_z - t / 2, center_z - t / 2,
          center_z + t / 2, center_z + t / 2, center_z + t / 2, center_z + t / 2]
    \<and> map px (points (current (cube_shape p w h t s center_z g))) = [0, w, w, 0, 0, w, w, 0]
    \<and> map py (points (current (cube_shape p w h t s center_z g))) = [0, 0, h, h, 0, 0, h, h]"
  by (simp add: rectangle_shape_current rectangle_frac_shape_current cube_shape_current
      shift_y_def shift_z_def)

theorem center_offset_axis_witness:
  "map py (points (current (rectangle_shape out_path 2 1 (1 / 10) 3 fresh))) =
       [3 + 1 / 2, 3 + 1 / 2, 3 - 1 / 2, 3 - 1 / 2]
    \<and> map pz (points (current (rectangle_shape out_path 2 1 (1 / 10) 3 fresh))) = [0, 0, 0, 0]
    \<and> map pz (points (current (cube_shape out_path 2 1 4 (1 / 10) 3 fresh))) =
         [3 - 4 / 2, 3 - 4 / 2, 3 - 4 / 2, 3 - 4 / 2, 3 + 4 / 2, 3 + 4 / 2, 3 + 4 / 2, 3 + 4 / 2]
    \<and> map py (points (current (cube_shape out_path 2 1 4 (1 / 10) 3 fresh))) =
         [0, 0, 1, 1, 0, 0, 1, 1]"
  using center_offset_axis [of out_path 2 1 "1 / 10" 3 fresh "''domain''" 4]
  by blast

text \<open>
  C1 as stated: each of the 12 edges of the prism appears in two loops with opposite
  signs. Edge 1 runs forwards both in the bottom loop and in the front loop, so not every
  edge does.
\<close>

theorem cube_edges_not_all_opposite:
  "\<not> list_all (shared_opposite (current (cube_shape out_path 2 1 1 (1 / 10) 0 fresh)))
        [1, 2, 3, 4, 5, 6, 7, 8, 9, 10, 11, 12]"
  by (simp add: cube_shape_current shared_opposite_def loops_with_def opposite_in_def)

text \<open>
  C1, amended. For every positive width, height and thickness, each of the 12 edges of
  the prism appears in exactly 2 of the 6 edge loops, once in each. The two loops run
  the edge in opposite directions for the edges 2, 3, 5, 8, 9, 11 and in the same
  direction for the edges 1, 4, 6, 7, 10, 12. By the right-hand rule the loops of the
  faces top, front and left have normals that point out of the prism, those of bottom,
  back and right have normals that point into it.
\<close>

theorem cube_edges_shared:
  assumes "0 < w" and "0 < h" and "0 < t"
  shows "length (curves (current (cube_shape p w h t s z g))) = 12
    \<and> length (curve_loops (current (cube_shape p w h t s z g))) = 6
    \<and> list_all (shared_by_two (current (cube_shape p w h t s z g)))
         [1, 2, 3, 4, 5, 6, 7, 8, 9, 10, 11, 12]
    \<and> filter (shared_opposite (current (cube_shape p w h t s z g)))
         [1, 2, 3, 4, 5, 6, 7, 8, 9, 10, 11, 12] = [2, 3, 5, 8, 9, 11]
    \<and> filter (shared_same (current (cube_shape p w h t s z g)))
         [1, 2, 3, 4, 5, 6, 7, 8, 9, 10, 11, 12] = [1, 4, 6, 7, 10, 12]
    \<and> map (tagged (current (cube_shape p w h t s z g)) 2)
         [''bottom'', ''top'', ''front'', ''back'', ''left'', ''right''] =
         [[[1]], [[2]], [[3]], [[4]], [[5]], [[6]]]
    \<and> surfaces (current (cube_shape p w h t s z g)) = [[1], [2], [3], [4], [5], [6]]
    \<and> map (outward (current (cube_shape p w h t s z g)))
         (curve_loops (current (cube_shape p w h t s z g))) =
         [False, True, True, False, True, False]
    \<and> map (inward (current (cube_shape p w h t s z g)))
         (curve_loops (current (cube_shape p w h t s z g))) =
         [True, False, False, True, False, True]"
proof -
  have vol: "0 < w * h * t" using assms by simp
  have sides: "map (outward (current (cube_shape p w h t s z g)))
         (curve_loops (current (cube_shape p w h t s z g))) =
         [False, True, True, False, True, False]
    \<and> map (inward (current (cube_shape p w h t s z g)))
         (curve_loops (current (cube_shape p w h t s z g))) =
         [True, False, False, True, False, True]"
    using cube_facing [of p w h t s z g] vol
    by (simp add: cube_loops outward_def inward_def)
  have edges: "length (curves (current (cube_shape p w h t s z g))) = 12
    \<and> length (curve_loops (current (cube_shape p w h t s z g))) = 6
    \<and> list_all (shared_by_two (current (cube_shape p w h t s z g)))
         [1, 2, 3, 4, 5, 6, 7, 8, 9, 10, 11, 12]
    \<and> filter (shared_opposite (current (cube_shape p w h t s z g)))
         [1, 2, 3, 4, 5, 6, 7, 8, 9, 10, 11, 12] = [2, 3, 5, 8, 9, 11]
    \<and> filter (shared_same (current (cube_shape p w h t s z g)))
         [1, 2, 3, 4, 5, 6, 7, 8, 9, 10, 11, 12] = [1, 4, 6, 7, 10, 12]
    \<and> map (tagged (current (cube_shape p w h t s z g)) 2)
         [''bottom'', ''top'', ''front'', ''back'', ''left'', ''right''] =
         [[[1]], [[2]], [[3]], [[4]], [[5]], [[6]]]
    \<and> surfaces (current (cube_shape p w h t s z g)) = [[1], [2], [3], [4], [5], [6]]"
    by (simp add: cube_shape_current shared_by_two_def shared_opposite_def shared_same_def
        loops_with_def times_in_def opposite_in_def same_in_def tagged_def)
  from edges sides show ?thesis by (simp only: simp_thms)
qed

theorem cube_edges_shared_witness:
  "(0::real) < 2 \<and> (0::real) < 1 \<and> (0::real) < 3
    \<and> list_all (shared_by_two (current (cube_shape out_path 2 1 3 (1 / 10) 0 fresh)))
         [1, 2, 3, 4, 5, 6, 7, 8, 9, 10, 11, 12]
    \<and> filter (shared_same (current (cube_shape out_path 2 1 3 (1 / 10) 0 fresh)))
         [1, 2, 3, 4, 5, 6, 7, 8, 9, 10, 11, 12] = [1, 4, 6, 7, 10, 12]
    \<and> map (inward (current (cube_shape out_path 2 1 3 (1 / 10) 0 fresh)))
         (curve_loops (current (cube_shape out_path 2 1 3 (1 / 10) 0 fresh))) =
         [True, False, False, True, False, True]"
  using cube_edges_shared [where w = 2 and h = 1 and t = 3 and p = out_path
      and s = "1 / 10" and z = 0 and g = fresh]
  by simp

end
